theory Spec2Isabelle
  imports Main "HOL-Library.Word"
begin

section \<open>Framework values the tutorials exchange with GStreamer\<close>

text \<open>
  The three tutorial programs are glue code around GStreamer. Everything the framework
  decides (whether an element could be created, what the bus delivers, what a query
  answers) is an input of the model; everything the program does to the framework or to
  the console is recorded, in program order, as a list of effects. A framework object is
  a handle; a NULL pointer is \<open>None\<close> of an option.
\<close>

type_synonym obj = nat

type_synonym gint64 = "64 word"

datatype GstState =
  GST_STATE_VOID_PENDING | GST_STATE_NULL | GST_STATE_READY | GST_STATE_PAUSED | GST_STATE_PLAYING

datatype GstStateChangeReturn =
  GST_STATE_CHANGE_FAILURE | GST_STATE_CHANGE_SUCCESS | GST_STATE_CHANGE_ASYNC
  | GST_STATE_CHANGE_NO_PREROLL

text \<open>\<open>GST_MESSAGE_OTHER\<close> stands for every message type the switches do not name.\<close>

datatype GstMessageType =
  GST_MESSAGE_ERROR | GST_MESSAGE_EOS | GST_MESSAGE_DURATION | GST_MESSAGE_STATE_CHANGED
  | GST_MESSAGE_OTHER

datatype GstSeekFlags = GST_SEEK_FLAG_FLUSH | GST_SEEK_FLAG_ACCURATE | GST_SEEK_FLAG_KEY_UNIT

datatype GstFormat = GST_FORMAT_TIME | GST_FORMAT_BYTES

text \<open>
  A bus message: its type, the object that posted it (\<open>GST_MESSAGE_SRC\<close>) with that object's
  name, and what \<open>gst_message_parse_error\<close> and \<open>gst_message_parse_state_changed\<close> read
  from it (\<open>debug_info\<close> may be NULL).
\<close>

record GstMessage =
  msg_type :: GstMessageType
  msg_src :: obj
  src_name :: string
  err_message :: string
  debug_info :: "string option"
  old_state :: GstState
  new_state :: GstState
  pending_state :: GstState

text \<open>
  The effects: console output (\<open>g_print\<close>, \<open>g_printerr\<close>: the format string without its
  line breaks, and the string arguments) and the framework calls, each with the arguments
  the program passes. A set of seek flags is the bitwise OR of the flags in it.
\<close>

datatype effect =
    Print string "string list"
  | PrintErr string "string list"
  | PrintPosition gint64 gint64
  | PrintSeekRange gint64 gint64
  | ObjectSet obj string string
  | BinAddMany obj "obj list"
  | ElementLink "obj list"
  | SignalConnect obj string
  | SetState obj GstState
  | GetBus obj
  | BusPop obj "GstMessage option"
  | QueryPosition obj GstFormat
  | QueryDuration obj GstFormat
  | QuerySeeking obj GstFormat
  | QueryUnref
  | SeekSimple obj GstFormat "GstSeekFlags set" gint64
  | MessageUnref GstMessage
  | ObjectUnref obj
  | GetStaticPad obj string
  | PadLink obj obj
  | CapsUnref

fun gst_element_state_get_name :: "GstState \<Rightarrow> string" where
  "gst_element_state_get_name GST_STATE_VOID_PENDING = ''VOID_PENDING''"
| "gst_element_state_get_name GST_STATE_NULL = ''NULL''"
| "gst_element_state_get_name GST_STATE_READY = ''READY''"
| "gst_element_state_get_name GST_STATE_PAUSED = ''PAUSED''"
| "gst_element_state_get_name GST_STATE_PLAYING = ''PLAYING''"

text \<open>
  Modelled from the spec: the framework header that defines \<open>GST_SECOND\<close> and
  \<open>GST_CLOCK_TIME_NONE\<close> is not part of the repository. Times are in nanoseconds (the
  comment on \<open>CustomData.duration\<close>); one second is a signed 64-bit constant, so the
  comparison with the signed \<open>current\<close> is a signed one; the invalid time is all ones,
  which is -1 as a \<open>gint64\<close>.
\<close>

definition GST_SECOND :: gint64 where
  "GST_SECOND = 1000000000"

definition GST_CLOCK_TIME_NONE :: gint64 where
  "GST_CLOCK_TIME_NONE = - 1"

definition GST_CLOCK_TIME_IS_VALID :: "gint64 \<Rightarrow> bool" where
  "GST_CLOCK_TIME_IS_VALID t = (t \<noteq> GST_CLOCK_TIME_NONE)"

text \<open>The messages a trace released, and the messages it popped from the bus, in order.\<close>

fun released :: "effect list \<Rightarrow> GstMessage list" where
  "released [] = []"
| "released (MessageUnref m # tr) = m # released tr"
| "released (e # tr) = released tr"

fun popped_messages :: "effect list \<Rightarrow> GstMessage list" where
  "popped_messages [] = []"
| "popped_messages (BusPop b (Some m) # tr) = m # popped_messages tr"
| "popped_messages (e # tr) = popped_messages tr"

text \<open>The seek requests of a trace: target object, format, flags and position.\<close>

fun seeks :: "effect list \<Rightarrow> (obj \<times> GstFormat \<times> GstSeekFlags set \<times> gint64) list" where
  "seeks [] = []"
| "seeks (SeekSimple p f fl t # tr) = (p, f, fl, t) # seeks tr"
| "seeks (e # tr) = seeks tr"

text \<open>The positions a trace printed on its progress lines.\<close>

fun reported_positions :: "effect list \<Rightarrow> gint64 list" where
  "reported_positions [] = []"
| "reported_positions (PrintPosition c d # tr) = c # reported_positions tr"
| "reported_positions (e # tr) = reported_positions tr"

section \<open>bt4-seeking.c\<close>

record CustomData =
  playbin :: obj
  playing :: bool
  terminate :: bool
  seek_enabled :: bool
  seek_done :: bool
  duration :: gint64

text \<open>
  What the framework answers during one iteration of the loop: the message
  \<open>gst_bus_timed_pop_filtered\<close> returns (\<open>None\<close> when the 100 ms timeout expires), and the
  answers to the queries the iteration may make. A query that fails is \<open>None\<close>; its
  out-parameters then keep the value they had (GStreamer stores \<open>GST_CLOCK_TIME_NONE\<close>
  there, which is the value both \<open>current\<close> and \<open>data.duration\<close> hold when queried).
  The seeking answer is the enabled flag with the start and end of the seekable range.
\<close>

record iteration_env =
  popped :: "GstMessage option"
  seeking_reply :: "(bool \<times> gint64 \<times> gint64) option"
  position_reply :: "gint64 option"
  duration_reply :: "gint64 option"

text \<open>\<open>handle_message\<close> (lines 155 to 237).\<close>

definition handle_message ::
  "CustomData \<Rightarrow> GstMessage \<Rightarrow> (bool \<times> gint64 \<times> gint64) option \<Rightarrow> CustomData \<times> effect list"
where
  "handle_message data msg reply =
    (let (data', eff) =
      (case msg_type msg of
         GST_MESSAGE_ERROR \<Rightarrow>
           (data\<lparr>terminate := True\<rparr>,
            [PrintErr ''Error received from element %s: %s'' [src_name msg, err_message msg],
             PrintErr ''Debugging information: %s''
               [case debug_info msg of Some s \<Rightarrow> s | None \<Rightarrow> ''none'']])
       | GST_MESSAGE_EOS \<Rightarrow>
           (data\<lparr>terminate := True\<rparr>, [Print ''End-Of-Stream reached.'' []])
       | GST_MESSAGE_DURATION \<Rightarrow>
           (data\<lparr>duration := GST_CLOCK_TIME_NONE\<rparr>, [])
       | GST_MESSAGE_STATE_CHANGED \<Rightarrow>
           (if msg_src msg = playbin data then
              (let shown = Print ''Pipeline state changed from %s to %s:''
                     [gst_element_state_get_name (old_state msg),
                      gst_element_state_get_name (new_state msg)];
                   data1 = data\<lparr>playing := (new_state msg = GST_STATE_PLAYING)\<rparr>
               in if playing data1 then
                    (case reply of
                       Some (enabled, start, end) \<Rightarrow>
                         (data1\<lparr>seek_enabled := enabled\<rparr>,
                          [shown, QuerySeeking (playbin data1) GST_FORMAT_TIME,
                           (if enabled then PrintSeekRange start end
                            else Print ''Seeking is DISABLED for this stream.'' []),
                           QueryUnref])
                     | None \<Rightarrow>
                         (data1,
                          [shown, QuerySeeking (playbin data1) GST_FORMAT_TIME,
                           PrintErr ''Seeking query failed.'' [], QueryUnref]))
                  else (data1, [shown]))
            else (data, []))
       | GST_MESSAGE_OTHER \<Rightarrow>
           (data, [PrintErr ''Unexpected message received.'' []]))
     in (data', eff @ [MessageUnref msg]))"

text \<open>
  The test of lines 188 and 193 to 195 on a message of the bus: a state-changed message of
  the playbin \<open>pb\<close> whose new state is PLAYING.
\<close>

definition entered_playing :: "obj \<Rightarrow> GstMessage \<Rightarrow> bool" where
  "entered_playing pb m =
     (msg_type m = GST_MESSAGE_STATE_CHANGED \<and> msg_src m = pb \<and>
      new_state m = GST_STATE_PLAYING)"

text \<open>
  The timeout branch of the loop body (lines 96 to 143): the periodic position query,
  the duration query while the duration is unknown, the progress line, and the seek.
\<close>

definition position_tick ::
  "CustomData \<Rightarrow> gint64 option \<Rightarrow> gint64 option \<Rightarrow> CustomData \<times> effect list"
where
  "position_tick data pos_reply dur_reply =
    (if playing data then
       (let (current, e1) =
              (case pos_reply of
                 Some c \<Rightarrow> (c, [QueryPosition (playbin data) GST_FORMAT_TIME])
               | None \<Rightarrow> (- 1, [QueryPosition (playbin data) GST_FORMAT_TIME,
                                 PrintErr ''Could not query current position.'' []]));
            (data1, e2) =
              (if \<not> GST_CLOCK_TIME_IS_VALID (duration data) then
                 (case dur_reply of
                    Some d \<Rightarrow> (data\<lparr>duration := d\<rparr>,
                               [QueryDuration (playbin data) GST_FORMAT_TIME])
                  | None \<Rightarrow> (data, [QueryDuration (playbin data) GST_FORMAT_TIME,
                                    PrintErr ''Could not query current duration.'' []]))
               else (data, []));
            e3 = [PrintPosition current (duration data1)];
            (data2, e4) =
              (if seek_enabled data1 \<and> \<not> seek_done data1 \<and> 10 * GST_SECOND <s current then
                 (data1\<lparr>seek_done := True\<rparr>,
                  [Print ''Reached 10s, performing seek...'' [],
                   SeekSimple (playbin data1) GST_FORMAT_TIME
                     {GST_SEEK_FLAG_FLUSH, GST_SEEK_FLAG_KEY_UNIT} (30 * GST_SECOND)])
               else (data1, []))
        in (data2, e1 @ e2 @ e3 @ e4))
     else (data, []))"

text \<open>One pass through the body of the do-while loop (lines 76 to 144).\<close>

definition bt4_iteration :: "obj \<Rightarrow> CustomData \<Rightarrow> iteration_env \<Rightarrow> CustomData \<times> effect list" where
  "bt4_iteration bus data env =
    (let (data', eff) =
       (case popped env of
          Some msg \<Rightarrow> handle_message data msg (seeking_reply env)
        | None \<Rightarrow> position_tick data (position_reply env) (duration_reply env))
     in (data', BusPop bus (popped env) # eff))"

text \<open>
  The do-while loop over the answers of the framework, one per iteration: the body runs,
  then \<open>terminate\<close> is tested. When the answers run out with \<open>terminate\<close> still false the
  loop is still running, which the result shows by \<open>terminate\<close> being false.
\<close>

fun bt4_loop :: "obj \<Rightarrow> CustomData \<Rightarrow> iteration_env list \<Rightarrow> CustomData \<times> effect list" where
  "bt4_loop bus data [] = (data, [])"
| "bt4_loop bus data (env # envs) =
    (let (data', eff) = bt4_iteration bus data env
     in if terminate data' then (data', eff)
        else (let (data'', eff') = bt4_loop bus data' envs in (data'', eff @ eff')))"

text \<open>
  \<open>main\<close> (lines 39 to 152). The inputs are the handle \<open>gst_element_factory_make\<close>
  returns, the result of the state change, the bus handle and the framework's answers
  for the loop. The result is the return value of \<open>main\<close>, \<open>None\<close> while the loop is
  still running, and the trace.
\<close>

definition bt4_uri :: string where
  "bt4_uri = ''file:///home/virus/Desktop/media/sintel_trailer-480p.webm''"

definition bt4_main ::
  "obj option \<Rightarrow> GstStateChangeReturn \<Rightarrow> obj \<Rightarrow> iteration_env list \<Rightarrow> int option \<times> effect list"
where
  "bt4_main made ret bus envs =
    (case made of
       None \<Rightarrow> (Some (- 1), [PrintErr ''Not all elements could be created.'' []])
     | Some pb \<Rightarrow>
         (let data = \<lparr>playbin = pb, playing = False, terminate = False, seek_enabled = False,
                      seek_done = False, duration = GST_CLOCK_TIME_NONE\<rparr>;
              start = [ObjectSet pb ''uri'' bt4_uri, SetState pb GST_STATE_PLAYING]
          in if ret = GST_STATE_CHANGE_FAILURE then
               (Some (- 1),
                start @ [PrintErr ''Unable to set the pipeline to the playing state.'' [],
                         ObjectUnref pb])
             else
               (let (data', tr) = bt4_loop bus data envs
                in if terminate data' then
                     (Some 0,
                      start @ [GetBus pb] @ tr @
                      [ObjectUnref bus, SetState pb GST_STATE_NULL, ObjectUnref pb])
                   else (None, start @ [GetBus pb] @ tr))))"

section \<open>bt2-gstreamer-concepts.c\<close>

text \<open>The switch on the message type with the release that follows it (lines 105 to 130).\<close>

definition bt2_parse_message :: "GstMessage \<Rightarrow> effect list" where
  "bt2_parse_message msg =
    (case msg_type msg of
       GST_MESSAGE_ERROR \<Rightarrow>
         [PrintErr ''Error received from element %s: %s'' [src_name msg, err_message msg],
          PrintErr ''Debugging information: %s''
            [case debug_info msg of Some s \<Rightarrow> s | None \<Rightarrow> ''none'']]
     | GST_MESSAGE_EOS \<Rightarrow> [Print ''End-Of-Stream reached.'' []]
     | _ \<Rightarrow> [PrintErr ''Unexpected message received.'' []])
    @ [MessageUnref msg]"

text \<open>
  \<open>main\<close> (lines 13 to 138). The inputs are the handles the two
  \<open>gst_element_factory_make\<close> calls and \<open>gst_pipeline_new\<close> return, whether
  \<open>gst_element_link\<close> succeeded, the result of the state change, the bus handle, and what
  the one blocking \<open>gst_bus_timed_pop_filtered\<close> returns: the head of \<open>answers\<close>, where the
  empty list means the call has not returned. The result is the return value of \<open>main\<close>
  (\<open>None\<close> while it is blocked) and the trace.
\<close>

definition bt2_main ::
  "obj option \<Rightarrow> obj option \<Rightarrow> obj option \<Rightarrow> bool \<Rightarrow> GstStateChangeReturn \<Rightarrow> obj \<Rightarrow>
   GstMessage option list \<Rightarrow> int option \<times> effect list"
where
  "bt2_main source sink pipeline linked ret bus answers =
    (case (pipeline, source, sink) of
       (Some p, Some src, Some snk) \<Rightarrow>
         (let built = [BinAddMany p [src, snk], ElementLink [src, snk]]
          in if \<not> linked then
               (Some (- 1),
                built @ [PrintErr ''Elements could not be linked.'' [], ObjectUnref p])
             else
               (let started = built @ [ObjectSet src ''pattern'' ''0'',
                                       SetState p GST_STATE_PLAYING]
                in if ret = GST_STATE_CHANGE_FAILURE then
                     (Some (- 1),
                      started @
                      [PrintErr ''Unable to set the pipeline to the playing state.'' [],
                       ObjectUnref p])
                   else
                     (case answers of
                        [] \<Rightarrow> (None, started @ [GetBus p])
                      | msg # _ \<Rightarrow>
                          (Some 0,
                           started @ [GetBus p, BusPop bus msg] @
                           (case msg of Some m \<Rightarrow> bt2_parse_message m | None \<Rightarrow> []) @
                           [ObjectUnref bus, SetState p GST_STATE_NULL, ObjectUnref p]))))
     | _ \<Rightarrow> (Some (- 1), [PrintErr ''Not all elements could be created.'' []]))"

section \<open>bt3-dynamic-pipelines.c\<close>

record bt3_CustomData =
  pipeline :: obj
  source :: obj
  convert :: obj
  resample :: obj
  sink :: obj

text \<open>
  One pass through the body of the do-while loop of \<open>main\<close> (lines 139 to 175), given
  what the blocking \<open>gst_bus_timed_pop_filtered\<close> returned. \<open>stop\<close> is the local
  flag \<open>terminate\<close> of \<open>main\<close>.
\<close>

definition bt3_iteration ::
  "obj \<Rightarrow> bt3_CustomData \<Rightarrow> bool \<Rightarrow> GstMessage option \<Rightarrow> bool \<times> effect list"
where
  "bt3_iteration bus data stop answer =
    (let (stop', eff) =
       (case answer of
          Some msg \<Rightarrow>
            (let (t, e) =
               (case msg_type msg of
                  GST_MESSAGE_ERROR \<Rightarrow>
                    (True,
                     [PrintErr ''Error received from element %s: %s''
                        [src_name msg, err_message msg],
                      PrintErr ''Debugging information: %s''
                        [case debug_info msg of Some s \<Rightarrow> s | None \<Rightarrow> ''none'']])
                | GST_MESSAGE_EOS \<Rightarrow> (True, [Print ''End-Of-Stream reached.'' []])
                | GST_MESSAGE_STATE_CHANGED \<Rightarrow>
                    (stop,
                     if msg_src msg = pipeline data then
                       [Print ''Pipeline state changed from %s to %s:''
                          [gst_element_state_get_name (old_state msg),
                           gst_element_state_get_name (new_state msg)]]
                     else [])
                | _ \<Rightarrow> (stop, [PrintErr ''Unexpected message received.'' []]))
             in (t, e @ [MessageUnref msg]))
        | None \<Rightarrow> (stop, []))
     in (stop', BusPop bus answer # eff))"

text \<open>
  The do-while loop over what the bus returns, one answer per iteration. When the answers
  run out with the flag still false, the loop is blocked in the next pop.
\<close>

fun bt3_loop ::
  "obj \<Rightarrow> bt3_CustomData \<Rightarrow> bool \<Rightarrow> GstMessage option list \<Rightarrow> bool \<times> effect list"
where
  "bt3_loop bus data stop [] = (stop, [])"
| "bt3_loop bus data stop (answer # answers) =
    (let (stop', eff) = bt3_iteration bus data stop answer
     in if stop' then (stop', eff)
        else (let (stop'', eff') = bt3_loop bus data stop' answers
              in (stop'', eff @ eff')))"

definition bt3_uri :: string where
  "bt3_uri =
    ''https://www.freedesktop.org/software/gstreamer-sdk/data/media/sintel_trailer-480p.webm''"

text \<open>
  \<open>main\<close> (lines 55 to 183). The inputs are the handles of the four elements and of the
  pipeline, whether \<open>gst_element_link_many\<close> succeeded, the result of the state change,
  the bus handle and what the bus returns. The \<open>pad-added\<close> callback runs on a thread of
  the framework and is modelled on its own below.
\<close>

definition bt3_main ::
  "obj option \<Rightarrow> obj option \<Rightarrow> obj option \<Rightarrow> obj option \<Rightarrow> obj option \<Rightarrow> bool \<Rightarrow>
   GstStateChangeReturn \<Rightarrow> obj \<Rightarrow> GstMessage option list \<Rightarrow> int option \<times> effect list"
where
  "bt3_main src_made conv_made res_made sink_made pipe_made linked ret bus answers =
    (case (pipe_made, src_made, conv_made, res_made, sink_made) of
       (Some p, Some src, Some conv, Some res, Some snk) \<Rightarrow>
         (let data = \<lparr>pipeline = p, source = src, convert = conv, resample = res, sink = snk\<rparr>;
              built = [BinAddMany p [src, conv, res, snk], ElementLink [conv, res, snk]]
          in if \<not> linked then
               (Some (- 1),
                built @ [PrintErr ''Elements could not be linked.'' [], ObjectUnref p])
             else
               (let started = built @ [ObjectSet src ''uri'' bt3_uri,
                                       SignalConnect src ''pad-added'',
                                       SetState p GST_STATE_PLAYING]
                in if ret = GST_STATE_CHANGE_FAILURE then
                     (Some (- 1),
                      started @
                      [PrintErr ''Unable to set the pipeline to the playing state.'' [],
                       ObjectUnref p])
                   else
                     (let (stop, tr) = bt3_loop bus data False answers
                      in if stop then
                           (Some 0,
                            started @ [GetBus p] @ tr @
                            [ObjectUnref bus, SetState p GST_STATE_NULL, ObjectUnref p])
                         else (None, started @ [GetBus p] @ tr))))
     | _ \<Rightarrow> (Some (- 1), [PrintErr ''Not all elements could be created.'' []]))"

subsection \<open>The pad-added callback\<close>

datatype GstPadLinkReturn =
  GST_PAD_LINK_OK | GST_PAD_LINK_WRONG_HIERARCHY | GST_PAD_LINK_WAS_LINKED
  | GST_PAD_LINK_WRONG_DIRECTION | GST_PAD_LINK_NOFORMAT | GST_PAD_LINK_NOSCHED
  | GST_PAD_LINK_REFUSED

definition GST_PAD_LINK_FAILED :: "GstPadLinkReturn \<Rightarrow> bool" where
  "GST_PAD_LINK_FAILED ret = (ret \<noteq> GST_PAD_LINK_OK)"

text \<open>
  Modelled from the spec: the pads live in the framework, which is not part of the
  repository. A pad is linked to at most one peer; \<open>static_pad\<close> is the pad
  \<open>gst_element_get_static_pad\<close> finds under a name on an element. A link that the
  framework accepts records each pad as the other's peer; a refused one changes nothing.
\<close>

record pad_world =
  static_pad :: "obj \<Rightarrow> string \<Rightarrow> obj"
  peer :: "obj \<Rightarrow> obj option"

definition gst_pad_is_linked :: "pad_world \<Rightarrow> obj \<Rightarrow> bool" where
  "gst_pad_is_linked w p = (peer w p \<noteq> None)"

definition gst_pad_link :: "pad_world \<Rightarrow> obj \<Rightarrow> obj \<Rightarrow> GstPadLinkReturn \<Rightarrow> pad_world" where
  "gst_pad_link w srcpad sinkpad ret =
    (if ret = GST_PAD_LINK_OK
     then w\<lparr>peer := (peer w)(srcpad \<mapsto> sinkpad, sinkpad \<mapsto> srcpad)\<rparr>
     else w)"

text \<open>\<open>g_str_has_prefix str prefix\<close>, on strings that are not NULL.\<close>

fun g_str_has_prefix :: "string \<Rightarrow> string \<Rightarrow> bool" where
  "g_str_has_prefix str [] = True"
| "g_str_has_prefix [] (p # ps) = False"
| "g_str_has_prefix (c # cs) (p # ps) = (c = p \<and> g_str_has_prefix cs ps)"

text \<open>
  One invocation of the callback: the name of the element that raised the signal, the
  new pad and its name, what \<open>gst_pad_get_current_caps\<close> returns for it (\<open>None\<close> is NULL,
  otherwise the names of the structures of the caps, in order), and what the framework
  answers to \<open>gst_pad_link\<close> if it is asked.
\<close>

record pad_added_args =
  src_element_name :: string
  new_pad :: obj
  new_pad_name :: string
  current_caps :: "string list option"
  link_result :: GstPadLinkReturn

text \<open>
  The callback passes the caps to \<open>gst_caps_get_structure\<close> without looking at them.
  That function requires caps that are not NULL and an index below their size; a call
  that breaks this is a fault of the caller (an assertion of the framework, or a read
  through the NULL pointer where the assertions are compiled out), so the model stops
  there with the fault.
\<close>

datatype handler_fault = NullCaps | NoStructure

text \<open>\<open>pad_added_handler\<close> (lines 186 to 274).\<close>

definition pad_added_handler ::
  "bt3_CustomData \<Rightarrow> pad_world \<Rightarrow> pad_added_args \<Rightarrow> handler_fault + (pad_world \<times> effect list)"
where
  "pad_added_handler data w a =
    (let sink_pad = static_pad w (convert data) ''sink'';
         entry = [GetStaticPad (convert data) ''sink'',
                  Print ''Received new pad '%s' from '%s':''
                    [new_pad_name a, src_element_name a]];
         exit = (\<lambda>have_caps. (if have_caps then [CapsUnref] else []) @ [ObjectUnref sink_pad])
     in if gst_pad_is_linked w sink_pad then
          Inr (w, entry @ [Print ''We are already linked. Ignoring.'' []] @ exit False)
        else
          (case current_caps a of
             None \<Rightarrow> Inl NullCaps
           | Some [] \<Rightarrow> Inl NoStructure
           | Some (new_pad_type # _) \<Rightarrow>
               (if \<not> g_str_has_prefix new_pad_type ''audio/x-raw'' then
                  Inr (w, entry @
                          [Print ''It has type '%s' which is not raw audio. Ignoring.''
                             [new_pad_type]] @ exit True)
                else
                  (let ret = link_result a;
                       w' = gst_pad_link w (new_pad a) sink_pad ret
                   in Inr (w', entry @
                               [PadLink (new_pad a) sink_pad,
                                (if GST_PAD_LINK_FAILED ret
                                 then Print ''Type is '%s' but link failed.'' [new_pad_type]
                                 else Print ''Link succeeded (type '%s').'' [new_pad_type])] @
                               exit True)))))"

text \<open>
  The callback invoked once for each element of a list of arguments, in order, on the
  world the previous invocation left; a fault ends the run.
\<close>

fun pad_added_many ::
  "bt3_CustomData \<Rightarrow> pad_world \<Rightarrow> pad_added_args list \<Rightarrow>
   handler_fault + (pad_world \<times> effect list)"
where
  "pad_added_many data w [] = Inr (w, [])"
| "pad_added_many data w (a # as) =
    (case pad_added_handler data w a of
       Inl f \<Rightarrow> Inl f
     | Inr (w', tr) \<Rightarrow>
         (case pad_added_many data w' as of
            Inl f \<Rightarrow> Inl f
          | Inr (w'', tr') \<Rightarrow> Inr (w'', tr @ tr')))"

text \<open>The pad links a trace attempted.\<close>

fun pad_links :: "effect list \<Rightarrow> (obj \<times> obj) list" where
  "pad_links [] = []"
| "pad_links (PadLink p q # tr) = (p, q) # pad_links tr"
| "pad_links (e # tr) = pad_links tr"

section \<open>Setup failures and the end of the stream\<close>

text \<open>
  The three tests each \<open>main\<close> makes before its event loop: a handle is NULL, the static
  link failed, the state change returned failure (bt2 lines 47, 67, 91; bt3 lines 92,
  103, 130; bt4 lines 57, 67, where nothing is linked).
\<close>

definition bt2_setup_failed ::
  "obj option \<Rightarrow> obj option \<Rightarrow> obj option \<Rightarrow> bool \<Rightarrow> GstStateChangeReturn \<Rightarrow> bool"
where
  "bt2_setup_failed src_made sink_made pipe_made linked ret =
     (pipe_made = None \<or> src_made = None \<or> sink_made = None \<or> linked = False \<or>
      ret = GST_STATE_CHANGE_FAILURE)"

definition bt3_setup_failed ::
  "obj option \<Rightarrow> obj option \<Rightarrow> obj option \<Rightarrow> obj option \<Rightarrow> obj option \<Rightarrow> bool \<Rightarrow>
   GstStateChangeReturn \<Rightarrow> bool"
where
  "bt3_setup_failed src_made conv_made res_made sink_made pipe_made linked ret =
     (pipe_made = None \<or> src_made = None \<or> conv_made = None \<or> res_made = None \<or>
      sink_made = None \<or> linked = False \<or> ret = GST_STATE_CHANGE_FAILURE)"

definition bt4_setup_failed :: "obj option \<Rightarrow> GstStateChangeReturn \<Rightarrow> bool" where
  "bt4_setup_failed made ret = (made = None \<or> ret = GST_STATE_CHANGE_FAILURE)"

text \<open>The two message types on which the loops set their terminate flag.\<close>

definition ends_loop :: "GstMessage \<Rightarrow> bool" where
  "ends_loop m = (msg_type m = GST_MESSAGE_EOS \<or> msg_type m = GST_MESSAGE_ERROR)"

text \<open>The number of times a trace called \<open>gst_bus_timed_pop_filtered\<close>.\<close>

fun bus_pops :: "effect list \<Rightarrow> nat" where
  "bus_pops [] = 0"
| "bus_pops (BusPop b a # tr) = Suc (bus_pops tr)"
| "bus_pops (e # tr) = bus_pops tr"

text \<open>
  The periodic work of bt4 in a trace: the position and duration queries, the progress
  lines and the seeks, which the loop does on a timeout while \<open>playing\<close> is true.
\<close>

fun periodic_work :: "effect list \<Rightarrow> effect list" where
  "periodic_work [] = []"
| "periodic_work (QueryPosition p f # tr) = QueryPosition p f # periodic_work tr"
| "periodic_work (QueryDuration p f # tr) = QueryDuration p f # periodic_work tr"
| "periodic_work (PrintPosition c d # tr) = PrintPosition c d # periodic_work tr"
| "periodic_work (SeekSimple p f fl t # tr) = SeekSimple p f fl t # periodic_work tr"
| "periodic_work (e # tr) = periodic_work tr"

section \<open>Concrete values\<close>

definition ex_data :: CustomData where
  "ex_data = \<lparr>playbin = 1, playing = True, terminate = False, seek_enabled = True,
              seek_done = False, duration = 52000000000\<rparr>"

definition ex_message :: "GstMessageType \<Rightarrow> obj \<Rightarrow> GstState \<Rightarrow> GstMessage" where
  "ex_message ty src new =
     \<lparr>msg_type = ty, msg_src = src, src_name = ''playbin'', err_message = ''no such file'',
      debug_info = None, old_state = GST_STATE_PAUSED, new_state = new,
      pending_state = GST_STATE_VOID_PENDING\<rparr>"

definition ex_tick :: "gint64 option \<Rightarrow> iteration_env" where
  "ex_tick pos = \<lparr>popped = None, seeking_reply = None, position_reply = pos,
                  duration_reply = None\<rparr>"

definition ex_post :: "GstMessage \<Rightarrow> (bool \<times> gint64 \<times> gint64) option \<Rightarrow> iteration_env" where
  "ex_post m reply = \<lparr>popped = Some m, seeking_reply = reply, position_reply = None,
                      duration_reply = None\<rparr>"

text \<open>
  A session of bt4: the playbin reaches PLAYING and reports seeking enabled, the position
  is 11 s on one tick and 31 s on the next, then the stream ends.
\<close>

definition ex_run :: "iteration_env list" where
  "ex_run =
     [ex_post (ex_message GST_MESSAGE_STATE_CHANGED 1 GST_STATE_PLAYING)
        (Some (True, 0, 52000000000)),
      ex_tick (Some 11000000000),
      ex_tick (Some 31000000000),
      ex_post (ex_message GST_MESSAGE_EOS 1 GST_STATE_PLAYING) None]"

text \<open>The same session on a stream that reports seeking disabled.\<close>

definition ex_run_disabled :: "iteration_env list" where
  "ex_run_disabled =
     [ex_post (ex_message GST_MESSAGE_STATE_CHANGED 1 GST_STATE_PLAYING)
        (Some (False, 0, 52000000000)),
      ex_tick (Some 11000000000),
      ex_tick (Some 31000000000),
      ex_post (ex_message GST_MESSAGE_EOS 1 GST_STATE_PLAYING) None]"

definition ex_data3 :: bt3_CustomData where
  "ex_data3 = \<lparr>pipeline = 5, source = 1, convert = 2, resample = 3, sink = 4\<rparr>"

text \<open>Two worlds: the sink pad 10 of the converter not linked, and linked to pad 20.\<close>

definition ex_world :: pad_world where
  "ex_world = \<lparr>static_pad = (\<lambda>e n. 10), peer = (\<lambda>p. None)\<rparr>"

definition ex_world_linked :: pad_world where
  "ex_world_linked = \<lparr>static_pad = (\<lambda>e n. 10), peer = [10 \<mapsto> 20, 20 \<mapsto> 10]\<rparr>"

definition ex_args :: "obj \<Rightarrow> string list option \<Rightarrow> pad_added_args" where
  "ex_args p caps = \<lparr>src_element_name = ''source'', new_pad = p, new_pad_name = ''src_0'',
                     current_caps = caps, link_result = GST_PAD_LINK_OK\<rparr>"

section \<open>Traces of bt4\<close>

lemma seeks_append: "seeks (a @ b) = seeks a @ seeks b"
  by (induction a rule: seeks.induct) simp_all

lemma released_append: "released (a @ b) = released a @ released b"
  by (induction a rule: released.induct) simp_all

lemma popped_messages_append: "popped_messages (a @ b) = popped_messages a @ popped_messages b"
  by (induction a rule: popped_messages.induct) simp_all

lemma threshold_above_none: "\<not> 10 * GST_SECOND <s (- 1 :: gint64)"
  by (simp add: GST_SECOND_def word_sless_alt)

lemma handle_message_seeks: "seeks (snd (handle_message data msg reply)) = []"
  by (simp add: handle_message_def Let_def seeks_append split: GstMessageType.splits option.splits prod.splits)

lemma handle_message_seek_done:
  "seek_done (fst (handle_message data msg reply)) = seek_done data"
  by (simp add: handle_message_def Let_def split: GstMessageType.splits option.splits prod.splits)

lemma position_tick_seeks:
  "seeks (snd (position_tick data pr dr)) =
     (if playing data \<and> seek_enabled data \<and> \<not> seek_done data \<and>
         (\<exists>c. pr = Some c \<and> 10 * GST_SECOND <s c)
      then [(playbin data, GST_FORMAT_TIME, {GST_SEEK_FLAG_FLUSH, GST_SEEK_FLAG_KEY_UNIT},
             30 * GST_SECOND)]
      else [])"
  by (auto simp add: position_tick_def Let_def seeks_append threshold_above_none
           split: option.splits prod.splits)

lemma position_tick_seek_done:
  "seek_done (fst (position_tick data pr dr)) =
     (seek_done data \<or> seeks (snd (position_tick data pr dr)) \<noteq> [])"
  by (auto simp add: position_tick_def Let_def seeks_append threshold_above_none
           split: option.splits prod.splits)

lemma bt4_iteration_seeks_done:
  "seek_done data \<Longrightarrow> seeks (snd (bt4_iteration bus data env)) = []"
  by (simp add: bt4_iteration_def case_prod_beta handle_message_seeks position_tick_seeks
           split: option.splits)

lemma bt4_iteration_seek_done:
  "seek_done (fst (bt4_iteration bus data env)) =
     (seek_done data \<or> seeks (snd (bt4_iteration bus data env)) \<noteq> [])"
  by (simp add: bt4_iteration_def case_prod_beta handle_message_seek_done handle_message_seeks
           position_tick_seek_done split: option.splits)

lemma bt4_iteration_seeks_le: "length (seeks (snd (bt4_iteration bus data env))) \<le> 1"
  by (simp add: bt4_iteration_def case_prod_beta handle_message_seeks position_tick_seeks
           split: option.splits)

lemma bt4_loop_seeks_done:
  "seek_done data \<Longrightarrow>
     seeks (snd (bt4_loop bus data envs)) = [] \<and> seek_done (fst (bt4_loop bus data envs))"
proof (induction envs arbitrary: data)
  case Nil
  then show ?case by simp
next
  case (Cons env envs)
  obtain d1 e1 where it: "bt4_iteration bus data env = (d1, e1)" by (cases "bt4_iteration bus data env")
  have e1: "seeks e1 = []" using bt4_iteration_seeks_done [OF Cons.prems, of bus env] it by simp
  have d1: "seek_done d1" using bt4_iteration_seek_done [of bus data env] it Cons.prems by simp
  show ?case using Cons.IH [OF d1] it e1 d1
    by (simp add: seeks_append case_prod_beta)
qed

lemma bt4_loop_seeks_le: "length (seeks (snd (bt4_loop bus data envs))) \<le> 1"
proof (induction envs arbitrary: data)
  case Nil
  then show ?case by simp
next
  case (Cons env envs)
  obtain d1 e1 where it: "bt4_iteration bus data env = (d1, e1)" by (cases "bt4_iteration bus data env")
  show ?case
  proof (cases "seeks e1 = []")
    case True
    then show ?thesis using Cons.IH [of d1] it by (simp add: seeks_append case_prod_beta)
  next
    case False
    then have d1: "seek_done d1" using bt4_iteration_seek_done [of bus data env] it by simp
    have "length (seeks e1) \<le> 1" using bt4_iteration_seeks_le [of bus data env] it by simp
    then show ?thesis using bt4_loop_seeks_done [OF d1, of bus envs] it
      by (simp add: seeks_append case_prod_beta)
  qed
qed

lemma reported_positions_append:
  "reported_positions (a @ b) = reported_positions a @ reported_positions b"
  by (induction a rule: reported_positions.induct) simp_all

lemma handle_message_seek_enabled_off:
  "\<not> seek_enabled data \<Longrightarrow> \<forall>s e. reply \<noteq> Some (True, s, e) \<Longrightarrow>
     \<not> seek_enabled (fst (handle_message data msg reply))"
  by (auto simp add: handle_message_def Let_def split: GstMessageType.splits option.splits)

lemma position_tick_seek_enabled:
  "seek_enabled (fst (position_tick data pr dr)) = seek_enabled data"
  by (simp add: position_tick_def Let_def case_prod_beta split: option.splits)

lemma bt4_iteration_disabled:
  assumes "\<not> seek_enabled data" and "\<forall>s e. seeking_reply env \<noteq> Some (True, s, e)"
  shows "seeks (snd (bt4_iteration bus data env)) = [] \<and>
         \<not> seek_enabled (fst (bt4_iteration bus data env))"
  using assms handle_message_seek_enabled_off [of data "seeking_reply env"]
  by (simp add: bt4_iteration_def case_prod_beta handle_message_seeks position_tick_seeks
        position_tick_seek_enabled split: option.splits)

lemma bt4_loop_disabled:
  assumes "\<not> seek_enabled data"
    and "\<forall>env\<in>set envs. \<forall>s e. seeking_reply env \<noteq> Some (True, s, e)"
  shows "seeks (snd (bt4_loop bus data envs)) = []"
  using assms
proof (induction envs arbitrary: data)
  case Nil
  then show ?case by simp
next
  case (Cons env envs)
  have step: "seeks (snd (bt4_iteration bus data env)) = [] \<and>
         \<not> seek_enabled (fst (bt4_iteration bus data env))"
    using Cons.prems by (intro bt4_iteration_disabled) simp_all
  have rest: "seeks (snd (bt4_loop bus (fst (bt4_iteration bus data env)) envs)) = []"
    using Cons.prems step by (intro Cons.IH) simp_all
  show ?case using step rest by (simp add: case_prod_beta seeks_append)
qed

lemma handle_message_playbin: "playbin (fst (handle_message data msg reply)) = playbin data"
  by (simp add: handle_message_def Let_def split: GstMessageType.splits option.splits)

lemma position_tick_playbin: "playbin (fst (position_tick data pr dr)) = playbin data"
  by (simp add: position_tick_def Let_def case_prod_beta split: option.splits)

lemma bt4_iteration_playbin: "playbin (fst (bt4_iteration bus data env)) = playbin data"
  by (simp add: bt4_iteration_def case_prod_beta handle_message_playbin position_tick_playbin
        split: option.splits)

lemma handle_message_released: "released (snd (handle_message data msg reply)) = [msg]"
  by (simp add: handle_message_def Let_def released_append
        split: GstMessageType.splits option.splits)

lemma handle_message_popped: "popped_messages (snd (handle_message data msg reply)) = []"
  by (simp add: handle_message_def Let_def popped_messages_append
        split: GstMessageType.splits option.splits)

lemma handle_message_last: "last (snd (handle_message data msg reply)) = MessageUnref msg"
  by (simp add: handle_message_def case_prod_beta)

lemma position_tick_released: "released (snd (position_tick data pr dr)) = []"
  by (simp add: position_tick_def Let_def case_prod_beta released_append split: option.splits)

lemma position_tick_popped: "popped_messages (snd (position_tick data pr dr)) = []"
  by (simp add: position_tick_def Let_def case_prod_beta popped_messages_append
        split: option.splits)

lemma bt4_iteration_popped:
  "popped_messages (snd (bt4_iteration bus data env)) =
     (case popped env of Some m \<Rightarrow> [m] | None \<Rightarrow> [])"
  by (simp add: bt4_iteration_def case_prod_beta handle_message_popped position_tick_popped
        split: option.splits)

lemma bt4_iteration_released:
  "released (snd (bt4_iteration bus data env)) =
     (case popped env of Some m \<Rightarrow> [m] | None \<Rightarrow> [])"
  by (simp add: bt4_iteration_def case_prod_beta handle_message_released position_tick_released
        split: option.splits)

lemma bt4_loop_released:
  "released (snd (bt4_loop bus data envs)) = popped_messages (snd (bt4_loop bus data envs))"
proof (induction envs arbitrary: data)
  case Nil
  then show ?case by simp
next
  case (Cons env envs)
  show ?case
    using Cons.IH [of "fst (bt4_iteration bus data env)"]
    by (simp add: case_prod_beta released_append popped_messages_append
          bt4_iteration_released bt4_iteration_popped)
qed

lemma bt4_main_released:
  "released (snd (bt4_main made ret bus envs)) = popped_messages (snd (bt4_main made ret bus envs))"
  by (simp add: bt4_main_def Let_def case_prod_beta released_append popped_messages_append
        bt4_loop_released split: option.splits)

lemma count_seeking_handle:
  "count_list (snd (handle_message data msg reply)) (QuerySeeking (playbin data) GST_FORMAT_TIME) =
     (if entered_playing (playbin data) msg then 1 else 0)"
  by (simp add: handle_message_def entered_playing_def Let_def
        split: GstMessageType.splits option.splits)

lemma count_seeking_tick:
  "count_list (snd (position_tick data pr dr)) (QuerySeeking p f) = 0"
  by (simp add: position_tick_def Let_def case_prod_beta split: option.splits)

lemma count_seeking_iteration:
  "count_list (snd (bt4_iteration bus data env)) (QuerySeeking (playbin data) GST_FORMAT_TIME) =
     length (filter (entered_playing (playbin data))
       (popped_messages (snd (bt4_iteration bus data env))))"
  by (simp add: bt4_iteration_popped)
     (simp add: bt4_iteration_def case_prod_beta count_seeking_handle count_seeking_tick
        split: option.splits)

lemma count_seeking_loop:
  "count_list (snd (bt4_loop bus data envs)) (QuerySeeking (playbin data) GST_FORMAT_TIME) =
     length (filter (entered_playing (playbin data))
       (popped_messages (snd (bt4_loop bus data envs))))"
proof (induction envs arbitrary: data)
  case Nil
  then show ?case by simp
next
  case (Cons env envs)
  show ?case
    using Cons.IH [of "fst (bt4_iteration bus data env)"] count_seeking_iteration [of bus data env]
    by (simp add: case_prod_beta popped_messages_append bt4_iteration_playbin)
qed


lemma periodic_work_append: "periodic_work (a @ b) = periodic_work a @ periodic_work b"
  by (induction a rule: periodic_work.induct) simp_all

lemma handle_message_periodic: "periodic_work (snd (handle_message data msg reply)) = []"
  by (simp add: handle_message_def Let_def periodic_work_append
        split: GstMessageType.splits option.splits)

lemma handle_message_playing:
  "playing (fst (handle_message data msg reply)) =
     (if msg_type msg = GST_MESSAGE_STATE_CHANGED \<and> msg_src msg = playbin data
      then new_state msg = GST_STATE_PLAYING else playing data)"
  by (simp add: handle_message_def Let_def split: GstMessageType.splits option.splits)

lemma bt4_iteration_idle:
  assumes "\<not> playing data"
    and "\<forall>m. popped env = Some m \<longrightarrow> \<not> entered_playing (playbin data) m"
  shows "periodic_work (snd (bt4_iteration bus data env)) = [] \<and>
         \<not> playing (fst (bt4_iteration bus data env))"
  using assms
  by (auto simp add: bt4_iteration_def case_prod_beta handle_message_periodic
        handle_message_playing position_tick_def entered_playing_def split: option.splits)

lemma bt4_loop_idle:
  assumes "\<not> playing data"
    and "\<forall>env\<in>set envs. \<forall>m. popped env = Some m \<longrightarrow> \<not> entered_playing (playbin data) m"
  shows "periodic_work (snd (bt4_loop bus data envs)) = [] \<and>
         \<not> playing (fst (bt4_loop bus data envs))"
  using assms
proof (induction envs arbitrary: data)
  case Nil
  then show ?case by simp
next
  case (Cons env envs)
  have step: "periodic_work (snd (bt4_iteration bus data env)) = [] \<and>
         \<not> playing (fst (bt4_iteration bus data env))"
    using Cons.prems by (intro bt4_iteration_idle) simp_all
  have rest: "periodic_work (snd (bt4_loop bus (fst (bt4_iteration bus data env)) envs)) = [] \<and>
         \<not> playing (fst (bt4_loop bus (fst (bt4_iteration bus data env)) envs))"
    using Cons.prems step by (intro Cons.IH) (simp_all add: bt4_iteration_playbin)
  show ?case using step rest by (simp add: case_prod_beta periodic_work_append)
qed

section \<open>Traces of bt2 and bt3\<close>

lemma bt2_parse_message_released: "released (bt2_parse_message m) = [m]"
  by (simp add: bt2_parse_message_def released_append split: GstMessageType.splits)

lemma bt2_parse_message_popped: "popped_messages (bt2_parse_message m) = []"
  by (simp add: bt2_parse_message_def popped_messages_append split: GstMessageType.splits)

lemma bt2_main_released:
  "released (snd (bt2_main s k p l r b ans)) = popped_messages (snd (bt2_main s k p l r b ans))"
  by (simp add: bt2_main_def Let_def released_append popped_messages_append
        bt2_parse_message_released bt2_parse_message_popped
        split: option.splits list.splits)

lemma bt3_iteration_released:
  "released (snd (bt3_iteration bus data stop answer)) =
     (case answer of Some m \<Rightarrow> [m] | None \<Rightarrow> [])"
  by (simp add: bt3_iteration_def Let_def case_prod_beta released_append
        split: option.splits GstMessageType.splits)

lemma bt3_iteration_popped:
  "popped_messages (snd (bt3_iteration bus data stop answer)) =
     (case answer of Some m \<Rightarrow> [m] | None \<Rightarrow> [])"
  by (simp add: bt3_iteration_def Let_def case_prod_beta popped_messages_append
        split: option.splits GstMessageType.splits)

lemma bt3_iteration_last:
  "last (snd (bt3_iteration bus data stop (Some m))) = MessageUnref m"
  by (simp add: bt3_iteration_def Let_def case_prod_beta)

lemma bt3_loop_released:
  "released (snd (bt3_loop bus data stop answers)) =
     popped_messages (snd (bt3_loop bus data stop answers))"
proof (induction answers arbitrary: stop)
  case Nil
  then show ?case by simp
next
  case (Cons answer answers)
  show ?case
    using Cons.IH [of False]
    by (simp add: case_prod_beta released_append popped_messages_append
          bt3_iteration_released bt3_iteration_popped)
qed

lemma bt3_main_released:
  "released (snd (bt3_main s c r k p l ret b ans)) =
     popped_messages (snd (bt3_main s c r k p l ret b ans))"
  by (simp add: bt3_main_def Let_def case_prod_beta released_append popped_messages_append
        bt3_loop_released split: option.splits)

section \<open>Return values of the three programs\<close>

lemma bt3_iteration_ends:
  "msg_type m = GST_MESSAGE_EOS \<or> msg_type m = GST_MESSAGE_ERROR \<Longrightarrow>
     fst (bt3_iteration bus data stop (Some m))"
  by (auto simp add: bt3_iteration_def case_prod_beta)

lemma bt3_loop_ends:
  "\<exists>m. Some m \<in> set answers \<and> (msg_type m = GST_MESSAGE_EOS \<or> msg_type m = GST_MESSAGE_ERROR)
     \<Longrightarrow> fst (bt3_loop bus data stop answers)"
proof (induction answers arbitrary: stop)
  case Nil
  then show ?case by simp
next
  case (Cons answer answers)
  show ?case
  proof (cases "fst (bt3_iteration bus data stop answer)")
    case True
    then show ?thesis by (simp add: case_prod_beta)
  next
    case False
    then have "\<exists>m. Some m \<in> set answers \<and>
        (msg_type m = GST_MESSAGE_EOS \<or> msg_type m = GST_MESSAGE_ERROR)"
      using Cons.prems bt3_iteration_ends [of _ bus data stop] by auto
    then show ?thesis using Cons.IH [of False] False by (simp add: case_prod_beta)
  qed
qed

lemma handle_message_ends:
  "msg_type m = GST_MESSAGE_EOS \<or> msg_type m = GST_MESSAGE_ERROR \<Longrightarrow>
     terminate (fst (handle_message data m reply))"
  by (auto simp add: handle_message_def)

lemma bt4_loop_ends:
  "\<exists>env\<in>set envs. \<exists>m. popped env = Some m \<and>
       (msg_type m = GST_MESSAGE_EOS \<or> msg_type m = GST_MESSAGE_ERROR)
     \<Longrightarrow> terminate (fst (bt4_loop bus data envs))"
proof (induction envs arbitrary: data)
  case Nil
  then show ?case by simp
next
  case (Cons env envs)
  show ?case
  proof (cases "terminate (fst (bt4_iteration bus data env))")
    case True
    then show ?thesis by (simp add: case_prod_beta)
  next
    case False
    have "\<not> (\<exists>m. popped env = Some m \<and>
        (msg_type m = GST_MESSAGE_EOS \<or> msg_type m = GST_MESSAGE_ERROR))"
      using False handle_message_ends [of _ data "seeking_reply env"]
      by (auto simp add: bt4_iteration_def case_prod_beta)
    then have "\<exists>env\<in>set envs. \<exists>m. popped env = Some m \<and>
       (msg_type m = GST_MESSAGE_EOS \<or> msg_type m = GST_MESSAGE_ERROR)"
      using Cons.prems by auto
    then show ?thesis
      using Cons.IH [of "fst (bt4_iteration bus data env)"] False by (simp add: case_prod_beta)
  qed
qed

lemma bt2_main_code:
  "fst (bt2_main s k p l r b ans) =
     (if p = None \<or> s = None \<or> k = None \<or> l = False \<or> r = GST_STATE_CHANGE_FAILURE
      then Some (- 1) else if ans = [] then None else Some 0)"
  by (simp add: bt2_main_def Let_def split: option.splits list.splits)

lemma bt3_main_failed:
  "p = None \<or> s = None \<or> c = None \<or> r = None \<or> k = None \<or> l = False \<or>
     ret = GST_STATE_CHANGE_FAILURE \<Longrightarrow>
   fst (bt3_main s c r k p l ret b ans) = Some (- 1)"
  by (auto simp add: bt3_main_def Let_def split: option.splits)

lemma bt3_main_started:
  "\<not> (p = None \<or> s = None \<or> c = None \<or> r = None \<or> k = None \<or> l = False \<or>
     ret = GST_STATE_CHANGE_FAILURE) \<Longrightarrow>
   fst (bt3_main s c r k p l ret b ans) =
     (if fst (bt3_loop b \<lparr>pipeline = the p, source = the s, convert = the c,
                           resample = the r, sink = the k\<rparr> False ans)
      then Some 0 else None)"
  by (auto simp add: bt3_main_def Let_def case_prod_beta split: option.splits)

lemma bt4_main_failed:
  "made = None \<or> ret = GST_STATE_CHANGE_FAILURE \<Longrightarrow>
     fst (bt4_main made ret bus envs) = Some (- 1)"
  by (auto simp add: bt4_main_def Let_def split: option.splits)

lemma bt4_main_started:
  "\<not> (made = None \<or> ret = GST_STATE_CHANGE_FAILURE) \<Longrightarrow>
   fst (bt4_main made ret bus envs) =
     (if terminate (fst (bt4_loop bus
           \<lparr>playbin = the made, playing = False, terminate = False, seek_enabled = False,
            seek_done = False, duration = GST_CLOCK_TIME_NONE\<rparr> envs))
      then Some 0 else None)"
  by (auto simp add: bt4_main_def Let_def case_prod_beta split: option.splits)


lemma bt2_main_failed_pops:
  "p = None \<or> s = None \<or> k = None \<or> l = False \<or> r = GST_STATE_CHANGE_FAILURE \<Longrightarrow>
     bus_pops (snd (bt2_main s k p l r b ans)) = 0"
  by (auto simp add: bt2_main_def Let_def split: option.splits)

lemma bt3_main_failed_pops:
  "p = None \<or> s = None \<or> c = None \<or> r = None \<or> k = None \<or> l = False \<or>
     ret = GST_STATE_CHANGE_FAILURE \<Longrightarrow>
   bus_pops (snd (bt3_main s c r k p l ret b ans)) = 0"
  by (auto simp add: bt3_main_def Let_def split: option.splits)

lemma bt4_main_failed_pops:
  "made = None \<or> ret = GST_STATE_CHANGE_FAILURE \<Longrightarrow>
     bus_pops (snd (bt4_main made ret bus envs)) = 0"
  by (auto simp add: bt4_main_def Let_def split: option.splits)

section \<open>The pad-added callback: what it links\<close>

lemma pad_links_append: "pad_links (a @ b) = pad_links a @ pad_links b"
  by (induction a rule: pad_links.induct) simp_all

lemma pad_added_handler_links_audio_only:
  assumes "pad_added_handler data w a = Inr (w', tr)" and "pad_links tr \<noteq> []"
  shows "\<exists>t ts. current_caps a = Some (t # ts) \<and> g_str_has_prefix t ''audio/x-raw''"
  using assms
  by (auto simp add: pad_added_handler_def Let_def pad_links_append
        split: if_splits option.splits list.splits)

lemma pad_added_handler_linked:
  assumes "gst_pad_is_linked w (static_pad w (convert data) ''sink'')"
  shows "pad_added_handler data w a =
     Inr (w, [GetStaticPad (convert data) ''sink'',
              Print ''Received new pad '%s' from '%s':'' [new_pad_name a, src_element_name a],
              Print ''We are already linked. Ignoring.'' [],
              ObjectUnref (static_pad w (convert data) ''sink'')])"
  using assms by (simp add: pad_added_handler_def Let_def)

section \<open>The seek happens at most once\<close>

text \<open>
  C1. In every execution of bt4 the trace holds at most one \<open>gst_element_seek_simple\<close>
  call, whatever the framework answers and however many iterations run; and from a
  state in which \<open>seek_done\<close> is set, no iteration of the loop issues a seek, and the flag
  stays set.
\<close>

theorem at_most_one_seek_per_session:
  "length (seeks (snd (bt4_main made ret bus envs))) \<le> 1 \<and>
   (seek_done data \<longrightarrow>
      seeks (snd (bt4_loop bus data envs)) = [] \<and> seek_done (fst (bt4_loop bus data envs)))"
proof
  show "length (seeks (snd (bt4_main made ret bus envs))) \<le> 1"
    using bt4_loop_seeks_le [of bus _ envs]
    by (simp add: bt4_main_def Let_def case_prod_beta seeks_append split: option.splits)
next
  show "seek_done data \<longrightarrow>
      seeks (snd (bt4_loop bus data envs)) = [] \<and> seek_done (fst (bt4_loop bus data envs))"
    using bt4_loop_seeks_done by blast
qed

text \<open>
  The session \<open>ex_run\<close> passes 10 s twice (11 s, then 31 s) and seeks once; started with
  \<open>seek_done\<close> set it does not seek at all.
\<close>

theorem at_most_one_seek_per_session_witness:
  "seeks (snd (bt4_main (Some 1) GST_STATE_CHANGE_ASYNC 7 ex_run)) =
     [(1, GST_FORMAT_TIME, {GST_SEEK_FLAG_FLUSH, GST_SEEK_FLAG_KEY_UNIT}, 30000000000)] \<and>
   seek_done (ex_data\<lparr>seek_done := True\<rparr>) \<and>
   seeks (snd (bt4_loop 7 (ex_data\<lparr>seek_done := True\<rparr>) ex_run)) = []"
  using at_most_one_seek_per_session
    [of "Some 1" GST_STATE_CHANGE_ASYNC 7 ex_run "ex_data\<lparr>seek_done := True\<rparr>"]
  by (simp add: bt4_main_def bt4_iteration_def handle_message_def position_tick_def
        ex_run_def ex_post_def ex_tick_def ex_message_def ex_data_def
        GST_SECOND_def GST_CLOCK_TIME_NONE_def GST_CLOCK_TIME_IS_VALID_def Let_def)

section \<open>When the seek is issued\<close>

text \<open>
  C2. On a timeout iteration of bt4 (no message popped) with \<open>playing\<close> true, a seek is
  issued if and only if \<open>seek_enabled\<close> is true, \<open>seek_done\<close> is false and the position
  query answered a position strictly above 10 seconds; the seek then is the only one of
  the iteration, on the playbin, in time format, with the flush and key-unit flags, to
  30 seconds, and \<open>seek_done\<close> is true afterwards. With \<open>seek_enabled\<close> false the
  iteration issues no seek; and a session in which no seeking query answers "enabled"
  issues no seek at all.
\<close>

theorem seek_issued_iff:
  assumes "popped env = None" and "playing data"
  shows "seeks (snd (bt4_iteration bus data env)) =
           (if seek_enabled data \<and> \<not> seek_done data \<and>
               (\<exists>c. position_reply env = Some c \<and> 10 * GST_SECOND <s c)
            then [(playbin data, GST_FORMAT_TIME,
                   {GST_SEEK_FLAG_FLUSH, GST_SEEK_FLAG_KEY_UNIT}, 30 * GST_SECOND)]
            else []) \<and>
         (seeks (snd (bt4_iteration bus data env)) \<noteq> [] \<longrightarrow>
            seek_done (fst (bt4_iteration bus data env))) \<and>
         (\<not> seek_enabled data \<longrightarrow> seeks (snd (bt4_iteration bus data env)) = []) \<and>
         ((\<forall>e\<in>set envs. \<forall>s t. seeking_reply e \<noteq> Some (True, s, t)) \<longrightarrow>
            seeks (snd (bt4_main made ret bus envs)) = [])"
proof (intro conjI)
  show "seeks (snd (bt4_iteration bus data env)) =
           (if seek_enabled data \<and> \<not> seek_done data \<and>
               (\<exists>c. position_reply env = Some c \<and> 10 * GST_SECOND <s c)
            then [(playbin data, GST_FORMAT_TIME,
                   {GST_SEEK_FLAG_FLUSH, GST_SEEK_FLAG_KEY_UNIT}, 30 * GST_SECOND)]
            else [])"
    using assms by (simp add: bt4_iteration_def case_prod_beta position_tick_seeks)
  then show "\<not> seek_enabled data \<longrightarrow> seeks (snd (bt4_iteration bus data env)) = []"
    by simp
  show "seeks (snd (bt4_iteration bus data env)) \<noteq> [] \<longrightarrow>
            seek_done (fst (bt4_iteration bus data env))"
    using bt4_iteration_seek_done [of bus data env] by simp
  show "(\<forall>e\<in>set envs. \<forall>s t. seeking_reply e \<noteq> Some (True, s, t)) \<longrightarrow>
            seeks (snd (bt4_main made ret bus envs)) = []"
    using bt4_loop_disabled [of _ envs bus]
    by (simp add: bt4_main_def Let_def case_prod_beta seeks_append split: option.splits)
qed

text \<open>
  At 11 s with seeking enabled the seek to 30 s fires and sets the flag; with seeking
  disabled, or at exactly 10 s, it does not; the session on a stream that reports seeking
  disabled never seeks.
\<close>

theorem seek_issued_iff_witness:
  "popped (ex_tick (Some 11000000000)) = None \<and> playing ex_data \<and>
   seeks (snd (bt4_iteration 7 ex_data (ex_tick (Some 11000000000)))) =
     [(1, GST_FORMAT_TIME, {GST_SEEK_FLAG_FLUSH, GST_SEEK_FLAG_KEY_UNIT}, 30000000000)] \<and>
   seek_done (fst (bt4_iteration 7 ex_data (ex_tick (Some 11000000000)))) \<and>
   seeks (snd (bt4_iteration 7 (ex_data\<lparr>seek_enabled := False\<rparr>) (ex_tick (Some 11000000000)))) = [] \<and>
   seeks (snd (bt4_iteration 7 ex_data (ex_tick (Some 10000000000)))) = [] \<and>
   seeks (snd (bt4_main (Some 1) GST_STATE_CHANGE_SUCCESS 7 ex_run_disabled)) = []"
  using seek_issued_iff [where env = "ex_tick (Some 11000000000)" and data = ex_data
      and envs = ex_run_disabled and bus = 7 and made = "Some 1"
      and ret = GST_STATE_CHANGE_SUCCESS]
    seek_issued_iff [where env = "ex_tick (Some 11000000000)"
      and data = "ex_data\<lparr>seek_enabled := False\<rparr>" and envs = "[]" and bus = 7]
    seek_issued_iff [where env = "ex_tick (Some 10000000000)" and data = ex_data
      and envs = "[]" and bus = 7]
  by (simp add: ex_tick_def ex_data_def ex_run_disabled_def ex_post_def GST_SECOND_def)


section \<open>A failed position query\<close>

text \<open>
  C7, as the claim states it: on a tick whose position query fails, the position reported
  is the previously known one. It is not: \<open>current\<close> is a local of the tick, set to -1
  before the query, and nothing keeps a position between ticks. After a tick at 5 s, a
  tick whose query fails reports the invalid time, not 5 s.
\<close>

theorem failed_position_query_counterexample:
  "reported_positions (snd (bt4_loop 7 ex_data [ex_tick (Some 5000000000), ex_tick None])) =
     [5000000000, GST_CLOCK_TIME_NONE] \<and>
   GST_CLOCK_TIME_NONE \<noteq> (5000000000 :: gint64)"
  by (simp add: bt4_iteration_def position_tick_def ex_tick_def ex_data_def
        GST_SECOND_def GST_CLOCK_TIME_NONE_def GST_CLOCK_TIME_IS_VALID_def Let_def
        word_sless_alt)

text \<open>
  C7, amended. On a timeout iteration of bt4 with \<open>playing\<close> true whose position query
  fails, the failure is logged right after the query and is not fatal: \<open>terminate\<close>,
  \<open>playing\<close>, \<open>seek_enabled\<close> and \<open>seek_done\<close> keep their values, so the loop goes on as
  before. No position is kept between ticks: the one position the iteration reports is
  the initial value -1 of \<open>current\<close>, the invalid time, and no seek is issued.
\<close>

theorem failed_position_query_tick:
  assumes "popped env = None" and "playing data" and "position_reply env = None"
  shows "take 3 (snd (bt4_iteration bus data env)) =
           [BusPop bus None, QueryPosition (playbin data) GST_FORMAT_TIME,
            PrintErr ''Could not query current position.'' []] \<and>
         reported_positions (snd (bt4_iteration bus data env)) = [GST_CLOCK_TIME_NONE] \<and>
         seeks (snd (bt4_iteration bus data env)) = [] \<and>
         terminate (fst (bt4_iteration bus data env)) = terminate data \<and>
         playing (fst (bt4_iteration bus data env)) \<and>
         seek_enabled (fst (bt4_iteration bus data env)) = seek_enabled data \<and>
         seek_done (fst (bt4_iteration bus data env)) = seek_done data"
  using assms
  by (simp add: bt4_iteration_def position_tick_def Let_def case_prod_beta
        reported_positions_append seeks_append threshold_above_none GST_CLOCK_TIME_NONE_def
        split: option.splits)

theorem failed_position_query_tick_witness:
  "popped (ex_tick None) = None \<and> playing ex_data \<and> position_reply (ex_tick None) = None \<and>
   snd (bt4_iteration 7 ex_data (ex_tick None)) =
     [BusPop 7 None, QueryPosition 1 GST_FORMAT_TIME,
      PrintErr ''Could not query current position.'' [],
      PrintPosition (- 1) 52000000000] \<and>
   fst (bt4_iteration 7 ex_data (ex_tick None)) = ex_data"
  using failed_position_query_tick [where env = "ex_tick None" and data = ex_data and bus = 7]
  by (simp add: bt4_iteration_def position_tick_def ex_tick_def ex_data_def
        GST_SECOND_def GST_CLOCK_TIME_NONE_def GST_CLOCK_TIME_IS_VALID_def Let_def
        word_sless_alt)

section \<open>The playing flag and the seeking query\<close>

text \<open>
  C10. After \<open>handle_message\<close> has handled a state-changed message of the playbin,
  \<open>playing\<close> is true exactly when the new state is PLAYING. When it is, the seeking query
  is issued once, from whatever state the session was in, and \<open>seek_enabled\<close> takes the
  answer (it keeps its value when the query fails); when it is not, the flag is cleared
  and \<open>seek_enabled\<close> is left alone, and a timeout tick on the resulting state does
  nothing: no query, no output, no seek. Over a whole run of the loop, the trace holds as
  many seeking queries as messages that reported the playbin entering PLAYING. And the
  periodic work stays off until PLAYING is observed again: after a playbin message with
  another new state, and from any state in which \<open>playing\<close> is false, a run of the loop
  over any timeouts and any messages, none of which reports the playbin entering PLAYING,
  holds no position query, no duration query, no progress line and no seek, and ends
  with \<open>playing\<close> still false.
\<close>

theorem playing_flag_tracks_playbin_state:
  assumes "msg_type msg = GST_MESSAGE_STATE_CHANGED" and "msg_src msg = playbin data"
  shows "playing (fst (handle_message data msg reply)) = (new_state msg = GST_STATE_PLAYING) \<and>
         count_list (snd (handle_message data msg reply))
           (QuerySeeking (playbin data) GST_FORMAT_TIME) =
           (if new_state msg = GST_STATE_PLAYING then 1 else 0) \<and>
         seek_enabled (fst (handle_message data msg reply)) =
           (if new_state msg = GST_STATE_PLAYING
            then (case reply of Some (enabled, start, end) \<Rightarrow> enabled
                  | None \<Rightarrow> seek_enabled data)
            else seek_enabled data) \<and>
         (new_state msg \<noteq> GST_STATE_PLAYING \<longrightarrow>
            position_tick (fst (handle_message data msg reply)) pr dr =
              (fst (handle_message data msg reply), [])) \<and>
         count_list (snd (bt4_loop bus data envs)) (QuerySeeking (playbin data) GST_FORMAT_TIME) =
           length (filter (entered_playing (playbin data))
             (popped_messages (snd (bt4_loop bus data envs)))) \<and>
         (new_state msg \<noteq> GST_STATE_PLAYING \<and>
          (\<forall>env\<in>set later. \<forall>m. popped env = Some m \<longrightarrow> \<not> entered_playing (playbin data) m) \<longrightarrow>
            periodic_work (snd (bt4_loop bus (fst (handle_message data msg reply)) later)) = [] \<and>
            \<not> playing (fst (bt4_loop bus (fst (handle_message data msg reply)) later))) \<and>
         (\<not> playing idle \<and>
          (\<forall>env\<in>set later. \<forall>m. popped env = Some m \<longrightarrow> \<not> entered_playing (playbin idle) m) \<longrightarrow>
            periodic_work (snd (bt4_loop bus idle later)) = [] \<and>
            \<not> playing (fst (bt4_loop bus idle later)))"
proof (intro conjI)
  show "playing (fst (handle_message data msg reply)) = (new_state msg = GST_STATE_PLAYING)"
    using assms by (simp add: handle_message_playing)
  show "count_list (snd (handle_message data msg reply))
           (QuerySeeking (playbin data) GST_FORMAT_TIME) =
           (if new_state msg = GST_STATE_PLAYING then 1 else 0)"
    using assms by (simp add: count_seeking_handle entered_playing_def)
  show "seek_enabled (fst (handle_message data msg reply)) =
           (if new_state msg = GST_STATE_PLAYING
            then (case reply of Some (enabled, start, end) \<Rightarrow> enabled
                  | None \<Rightarrow> seek_enabled data)
            else seek_enabled data)"
    using assms by (simp add: handle_message_def Let_def split: option.splits)
  show "new_state msg \<noteq> GST_STATE_PLAYING \<longrightarrow>
            position_tick (fst (handle_message data msg reply)) pr dr =
              (fst (handle_message data msg reply), [])"
    using assms by (simp add: handle_message_playing position_tick_def)
  show "count_list (snd (bt4_loop bus data envs)) (QuerySeeking (playbin data) GST_FORMAT_TIME) =
           length (filter (entered_playing (playbin data))
             (popped_messages (snd (bt4_loop bus data envs))))"
    by (rule count_seeking_loop)
  show "new_state msg \<noteq> GST_STATE_PLAYING \<and>
          (\<forall>env\<in>set later. \<forall>m. popped env = Some m \<longrightarrow> \<not> entered_playing (playbin data) m) \<longrightarrow>
            periodic_work (snd (bt4_loop bus (fst (handle_message data msg reply)) later)) = [] \<and>
            \<not> playing (fst (bt4_loop bus (fst (handle_message data msg reply)) later))"
  proof
    assume h: "new_state msg \<noteq> GST_STATE_PLAYING \<and>
          (\<forall>env\<in>set later. \<forall>m. popped env = Some m \<longrightarrow> \<not> entered_playing (playbin data) m)"
    have np: "\<not> playing (fst (handle_message data msg reply))"
      using h assms by (simp add: handle_message_playing)
    have ne: "\<forall>env\<in>set later. \<forall>m. popped env = Some m \<longrightarrow>
        \<not> entered_playing (playbin (fst (handle_message data msg reply))) m"
      using h by (simp add: handle_message_playbin)
    show "periodic_work (snd (bt4_loop bus (fst (handle_message data msg reply)) later)) = [] \<and>
            \<not> playing (fst (bt4_loop bus (fst (handle_message data msg reply)) later))"
      using np ne by (rule bt4_loop_idle)
  qed
  show "\<not> playing idle \<and>
          (\<forall>env\<in>set later. \<forall>m. popped env = Some m \<longrightarrow> \<not> entered_playing (playbin idle) m) \<longrightarrow>
            periodic_work (snd (bt4_loop bus idle later)) = [] \<and>
            \<not> playing (fst (bt4_loop bus idle later))"
    using bt4_loop_idle [of idle later bus] by blast
qed


text \<open>
  A playbin that leaves PLAYING for PAUSED and comes back: the flag is cleared and a tick
  does nothing; on the way back the query is issued again and its answer (now "disabled")
  replaces the flag; the run holds two seeking queries. While paused, a duration message,
  a message of another type, a state change of another element to PLAYING and ticks at
  11 s and 12 s do no periodic work.
\<close>

theorem playing_flag_tracks_playbin_state_witness:
  "fst (handle_message ex_data (ex_message GST_MESSAGE_STATE_CHANGED 1 GST_STATE_PAUSED) None) =
     ex_data\<lparr>playing := False\<rparr> \<and>
   position_tick (ex_data\<lparr>playing := False\<rparr>) (Some 11000000000) None =
     (ex_data\<lparr>playing := False\<rparr>, []) \<and>
   handle_message (ex_data\<lparr>playing := False\<rparr>)
       (ex_message GST_MESSAGE_STATE_CHANGED 1 GST_STATE_PLAYING) (Some (False, 0, 0)) =
     (ex_data\<lparr>seek_enabled := False\<rparr>,
      [Print ''Pipeline state changed from %s to %s:'' [''PAUSED'', ''PLAYING''],
       QuerySeeking 1 GST_FORMAT_TIME,
       Print ''Seeking is DISABLED for this stream.'' [],
       QueryUnref,
       MessageUnref (ex_message GST_MESSAGE_STATE_CHANGED 1 GST_STATE_PLAYING)]) \<and>
   count_list
     (snd (bt4_loop 7 ex_data
        [ex_post (ex_message GST_MESSAGE_STATE_CHANGED 1 GST_STATE_PAUSED) None,
         ex_post (ex_message GST_MESSAGE_STATE_CHANGED 1 GST_STATE_PLAYING) (Some (True, 0, 0)),
         ex_post (ex_message GST_MESSAGE_STATE_CHANGED 1 GST_STATE_PLAYING) None]))
     (QuerySeeking 1 GST_FORMAT_TIME) = 2 \<and>
   periodic_work
     (snd (bt4_loop 7 (ex_data\<lparr>playing := False\<rparr>)
        [ex_post (ex_message GST_MESSAGE_DURATION 1 GST_STATE_PAUSED) None,
         ex_tick (Some 11000000000),
         ex_post (ex_message GST_MESSAGE_OTHER 1 GST_STATE_PAUSED) None,
         ex_post (ex_message GST_MESSAGE_STATE_CHANGED 2 GST_STATE_PLAYING) None,
         ex_tick (Some 12000000000)])) = [] \<and>
   periodic_work
     (snd (bt4_loop 7 ex_data
        [ex_post (ex_message GST_MESSAGE_DURATION 1 GST_STATE_PAUSED) None,
         ex_tick (Some 11000000000)])) =
     [QueryPosition 1 GST_FORMAT_TIME, QueryDuration 1 GST_FORMAT_TIME,
      PrintPosition 11000000000 GST_CLOCK_TIME_NONE,
      SeekSimple 1 GST_FORMAT_TIME {GST_SEEK_FLAG_FLUSH, GST_SEEK_FLAG_KEY_UNIT} 30000000000]"
  using playing_flag_tracks_playbin_state
      [where msg = "ex_message GST_MESSAGE_STATE_CHANGED 1 GST_STATE_PAUSED" and data = ex_data
        and reply = None and pr = "Some 11000000000" and dr = None and bus = 7
        and envs = "[ex_post (ex_message GST_MESSAGE_STATE_CHANGED 1 GST_STATE_PAUSED) None,
         ex_post (ex_message GST_MESSAGE_STATE_CHANGED 1 GST_STATE_PLAYING) (Some (True, 0, 0)),
         ex_post (ex_message GST_MESSAGE_STATE_CHANGED 1 GST_STATE_PLAYING) None]"
        and later = "[ex_post (ex_message GST_MESSAGE_DURATION 1 GST_STATE_PAUSED) None,
         ex_tick (Some 11000000000),
         ex_post (ex_message GST_MESSAGE_OTHER 1 GST_STATE_PAUSED) None,
         ex_post (ex_message GST_MESSAGE_STATE_CHANGED 2 GST_STATE_PLAYING) None,
         ex_tick (Some 12000000000)]"
        and idle = "ex_data\<lparr>playing := False\<rparr>"]
    playing_flag_tracks_playbin_state
      [where msg = "ex_message GST_MESSAGE_STATE_CHANGED 1 GST_STATE_PLAYING"
        and data = "ex_data\<lparr>playing := False\<rparr>" and reply = "Some (False, 0, 0)"
        and envs = "[]" and later = "[]"]
  by (simp add: handle_message_def position_tick_def bt4_iteration_def ex_data_def
        ex_message_def ex_post_def ex_tick_def entered_playing_def Let_def
        GST_SECOND_def GST_CLOCK_TIME_NONE_def GST_CLOCK_TIME_IS_VALID_def)

section \<open>Messages are released\<close>

text \<open>
  C6. In each of the three programs a message popped from the bus is released exactly
  once, after it has been handled, whatever its type (error, end of stream, state
  changed, duration changed, or any other type, which takes the default branch): the
  handling of a message \<open>m\<close> releases \<open>m\<close> and nothing else, as its last effect; and in
  every run of each \<open>main\<close> the messages released are the messages popped, in the same
  order and number.
\<close>

theorem every_popped_message_released_once:
  "released (bt2_parse_message m) = [m] \<and> last (bt2_parse_message m) = MessageUnref m \<and>
   released (snd (bt3_iteration bus3 data3 stop (Some m))) = [m] \<and>
   last (snd (bt3_iteration bus3 data3 stop (Some m))) = MessageUnref m \<and>
   released (snd (handle_message data m reply)) = [m] \<and>
   last (snd (handle_message data m reply)) = MessageUnref m \<and>
   released (snd (bt2_main src2 sink2 pipe2 linked2 ret2 bus2 answers2)) =
     popped_messages (snd (bt2_main src2 sink2 pipe2 linked2 ret2 bus2 answers2)) \<and>
   released (snd (bt3_main src3 conv3 res3 sink3 pipe3 linked3 ret3 bus3 answers3)) =
     popped_messages (snd (bt3_main src3 conv3 res3 sink3 pipe3 linked3 ret3 bus3 answers3)) \<and>
   released (snd (bt4_main made ret bus envs)) =
     popped_messages (snd (bt4_main made ret bus envs))"
  by (simp add: bt2_parse_message_released bt3_iteration_released handle_message_released
        bt3_iteration_last handle_message_last bt2_main_released bt3_main_released
        bt4_main_released)
     (simp add: bt2_parse_message_def)


theorem every_popped_message_released_once_witness:
  "released (snd (bt4_main (Some 1) GST_STATE_CHANGE_ASYNC 7 ex_run)) =
     [ex_message GST_MESSAGE_STATE_CHANGED 1 GST_STATE_PLAYING,
      ex_message GST_MESSAGE_EOS 1 GST_STATE_PLAYING] \<and>
   popped_messages (snd (bt4_main (Some 1) GST_STATE_CHANGE_ASYNC 7 ex_run)) =
     [ex_message GST_MESSAGE_STATE_CHANGED 1 GST_STATE_PLAYING,
      ex_message GST_MESSAGE_EOS 1 GST_STATE_PLAYING]"
  using every_popped_message_released_once
    [where made = "Some 1" and ret = GST_STATE_CHANGE_ASYNC and bus = 7 and envs = ex_run]
  by (simp add: bt4_main_def bt4_iteration_def handle_message_def position_tick_def
        ex_run_def ex_post_def ex_tick_def ex_message_def
        GST_SECOND_def GST_CLOCK_TIME_NONE_def GST_CLOCK_TIME_IS_VALID_def Let_def)

section \<open>Return values\<close>

text \<open>
  C8. Each of the three programs returns -1 when its setup fails (a handle is NULL, the
  static link fails, or the state change returns failure), and then it has not popped
  the bus once; when the setup succeeds it returns nothing but 0, and it does return 0
  once the bus has delivered an end-of-stream or an error message, which are the two
  messages that end the loop (bt2, which has no loop, returns 0 as soon as its one pop
  returns). \<open>None\<close> is a program still waiting on the bus.
\<close>

theorem exit_codes:
  "(bt2_setup_failed src2 sink2 pipe2 linked2 ret2 \<longrightarrow>
      fst (bt2_main src2 sink2 pipe2 linked2 ret2 bus2 answers2) = Some (- 1) \<and>
      bus_pops (snd (bt2_main src2 sink2 pipe2 linked2 ret2 bus2 answers2)) = 0) \<and>
   (\<not> bt2_setup_failed src2 sink2 pipe2 linked2 ret2 \<longrightarrow>
      fst (bt2_main src2 sink2 pipe2 linked2 ret2 bus2 answers2) =
        (if answers2 = [] then None else Some 0)) \<and>
   (bt3_setup_failed src3 conv3 res3 sink3 pipe3 linked3 ret3 \<longrightarrow>
      fst (bt3_main src3 conv3 res3 sink3 pipe3 linked3 ret3 bus3 answers3) = Some (- 1) \<and>
      bus_pops (snd (bt3_main src3 conv3 res3 sink3 pipe3 linked3 ret3 bus3 answers3)) = 0) \<and>
   (\<not> bt3_setup_failed src3 conv3 res3 sink3 pipe3 linked3 ret3 \<longrightarrow>
      fst (bt3_main src3 conv3 res3 sink3 pipe3 linked3 ret3 bus3 answers3) \<in> {None, Some 0} \<and>
      ((\<exists>m. Some m \<in> set answers3 \<and> ends_loop m) \<longrightarrow>
         fst (bt3_main src3 conv3 res3 sink3 pipe3 linked3 ret3 bus3 answers3) = Some 0)) \<and>
   (bt4_setup_failed made ret \<longrightarrow>
      fst (bt4_main made ret bus envs) = Some (- 1) \<and>
      bus_pops (snd (bt4_main made ret bus envs)) = 0) \<and>
   (\<not> bt4_setup_failed made ret \<longrightarrow>
      fst (bt4_main made ret bus envs) \<in> {None, Some 0} \<and>
      ((\<exists>env\<in>set envs. \<exists>m. popped env = Some m \<and> ends_loop m) \<longrightarrow>
         fst (bt4_main made ret bus envs) = Some 0))"
proof (intro conjI impI)
  assume f: "bt2_setup_failed src2 sink2 pipe2 linked2 ret2"
  then show "fst (bt2_main src2 sink2 pipe2 linked2 ret2 bus2 answers2) = Some (- 1)"
    by (simp add: bt2_main_code bt2_setup_failed_def)
  from f show "bus_pops (snd (bt2_main src2 sink2 pipe2 linked2 ret2 bus2 answers2)) = 0"
    by (intro bt2_main_failed_pops) (simp add: bt2_setup_failed_def)
next
  assume "\<not> bt2_setup_failed src2 sink2 pipe2 linked2 ret2"
  then show "fst (bt2_main src2 sink2 pipe2 linked2 ret2 bus2 answers2) =
        (if answers2 = [] then None else Some 0)"
    by (auto simp add: bt2_main_code bt2_setup_failed_def)
next
  assume f: "bt3_setup_failed src3 conv3 res3 sink3 pipe3 linked3 ret3"
  then show "fst (bt3_main src3 conv3 res3 sink3 pipe3 linked3 ret3 bus3 answers3) = Some (- 1)"
    by (intro bt3_main_failed) (simp add: bt3_setup_failed_def)
  from f show "bus_pops (snd (bt3_main src3 conv3 res3 sink3 pipe3 linked3 ret3 bus3 answers3)) = 0"
    by (intro bt3_main_failed_pops) (simp add: bt3_setup_failed_def)
next
  assume n: "\<not> bt3_setup_failed src3 conv3 res3 sink3 pipe3 linked3 ret3"
  have st: "fst (bt3_main src3 conv3 res3 sink3 pipe3 linked3 ret3 bus3 answers3) =
     (if fst (bt3_loop bus3 \<lparr>pipeline = the pipe3, source = the src3, convert = the conv3,
                           resample = the res3, sink = the sink3\<rparr> False answers3)
      then Some 0 else None)"
    using n by (intro bt3_main_started) (simp add: bt3_setup_failed_def)
  then show "fst (bt3_main src3 conv3 res3 sink3 pipe3 linked3 ret3 bus3 answers3)
      \<in> {None, Some 0}"
    by simp
  assume "\<exists>m. Some m \<in> set answers3 \<and> ends_loop m"
  then show "fst (bt3_main src3 conv3 res3 sink3 pipe3 linked3 ret3 bus3 answers3) = Some 0"
    using st bt3_loop_ends [of answers3 bus3 _ False] by (simp add: ends_loop_def)
next
  assume f: "bt4_setup_failed made ret"
  then show "fst (bt4_main made ret bus envs) = Some (- 1)"
    by (intro bt4_main_failed) (simp add: bt4_setup_failed_def)
  from f show "bus_pops (snd (bt4_main made ret bus envs)) = 0"
    by (intro bt4_main_failed_pops) (simp add: bt4_setup_failed_def)
next
  assume n: "\<not> bt4_setup_failed made ret"
  have st: "fst (bt4_main made ret bus envs) =
     (if terminate (fst (bt4_loop bus
           \<lparr>playbin = the made, playing = False, terminate = False, seek_enabled = False,
            seek_done = False, duration = GST_CLOCK_TIME_NONE\<rparr> envs))
      then Some 0 else None)"
    using n by (intro bt4_main_started) (simp add: bt4_setup_failed_def)
  then show "fst (bt4_main made ret bus envs) \<in> {None, Some 0}"
    by simp
  assume "\<exists>env\<in>set envs. \<exists>m. popped env = Some m \<and> ends_loop m"
  then show "fst (bt4_main made ret bus envs) = Some 0"
    using st bt4_loop_ends [of envs bus] by (simp add: ends_loop_def)
qed

text \<open>
  A failed link and a failed state change give -1; bt2 after an end-of-stream, bt3 after
  a state change and an error, and the bt4 session \<open>ex_run\<close> give 0.
\<close>

theorem exit_codes_witness:
  "bt2_main (Some 1) (Some 2) (Some 3) False GST_STATE_CHANGE_SUCCESS 7 [] =
     (Some (- 1),
      [BinAddMany 3 [1, 2], ElementLink [1, 2], PrintErr ''Elements could not be linked.'' [],
       ObjectUnref 3]) \<and>
   fst (bt2_main (Some 1) (Some 2) (Some 3) True GST_STATE_CHANGE_ASYNC 7
          [Some (ex_message GST_MESSAGE_EOS 3 GST_STATE_PLAYING)]) = Some 0 \<and>
   fst (bt3_main (Some 1) (Some 2) (Some 3) (Some 4) (Some 5) True GST_STATE_CHANGE_FAILURE 7
          []) = Some (- 1) \<and>
   fst (bt3_main (Some 1) (Some 2) (Some 3) (Some 4) (Some 5) True GST_STATE_CHANGE_ASYNC 7
          [Some (ex_message GST_MESSAGE_STATE_CHANGED 5 GST_STATE_PLAYING),
           Some (ex_message GST_MESSAGE_ERROR 1 GST_STATE_PLAYING)]) = Some 0 \<and>
   fst (bt4_main None GST_STATE_CHANGE_SUCCESS 7 ex_run) = Some (- 1) \<and>
   fst (bt4_main (Some 1) GST_STATE_CHANGE_ASYNC 7 ex_run) = Some 0"
  using exit_codes [where ?src2.0 = "Some 1" and ?sink2.0 = "Some 2" and ?pipe2.0 = "Some 3"
      and ?linked2.0 = False and ?ret2.0 = GST_STATE_CHANGE_SUCCESS and ?bus2.0 = 7
      and ?answers2.0 = "[]"
      and ?src3.0 = "Some 1" and ?conv3.0 = "Some 2" and ?res3.0 = "Some 3"
      and ?sink3.0 = "Some 4" and ?pipe3.0 = "Some 5" and ?linked3.0 = True
      and ?ret3.0 = GST_STATE_CHANGE_FAILURE and ?bus3.0 = 7 and ?answers3.0 = "[]"
      and made = None and ret = GST_STATE_CHANGE_SUCCESS and bus = 7 and envs = ex_run]
    exit_codes [where ?src2.0 = "Some 1" and ?sink2.0 = "Some 2" and ?pipe2.0 = "Some 3"
      and ?linked2.0 = True and ?ret2.0 = GST_STATE_CHANGE_ASYNC and ?bus2.0 = 7
      and ?answers2.0 = "[Some (ex_message GST_MESSAGE_EOS 3 GST_STATE_PLAYING)]"
      and ?src3.0 = "Some 1" and ?conv3.0 = "Some 2" and ?res3.0 = "Some 3"
      and ?sink3.0 = "Some 4" and ?pipe3.0 = "Some 5" and ?linked3.0 = True
      and ?ret3.0 = GST_STATE_CHANGE_ASYNC and ?bus3.0 = 7
      and ?answers3.0 = "[Some (ex_message GST_MESSAGE_STATE_CHANGED 5 GST_STATE_PLAYING),
           Some (ex_message GST_MESSAGE_ERROR 1 GST_STATE_PLAYING)]"
      and made = "Some 1" and ret = GST_STATE_CHANGE_ASYNC and bus = 7 and envs = ex_run]
  by (simp add: bt2_setup_failed_def bt3_setup_failed_def bt4_setup_failed_def ends_loop_def
        ex_run_def ex_post_def ex_tick_def ex_message_def bt2_main_def bt3_main_def
        bt3_iteration_def bt4_main_def bt4_iteration_def handle_message_def position_tick_def
        bt2_parse_message_def GST_SECOND_def GST_CLOCK_TIME_NONE_def
        GST_CLOCK_TIME_IS_VALID_def Let_def)

section \<open>Construction that fails on a NULL handle\<close>

text \<open>
  C3 asks that a construction that fails releases every element and pipeline handle it
  obtained. The paths of a failed link and of a failed state change do so: they release
  the pipeline, which owns the elements added to it. The path of a NULL handle returns
  at once. With the source and the pipeline created and the sink NULL, bt2 prints its
  diagnostic and returns -1, and its trace holds no release; bt3 does the same with the
  resampler NULL. The failed link of bt2 is shown beside them.
\<close>

theorem null_handle_path_releases_nothing:
  "bt2_main (Some 1) None (Some 3) True GST_STATE_CHANGE_SUCCESS 7 [] =
     (Some (- 1), [PrintErr ''Not all elements could be created.'' []]) \<and>
   bt3_main (Some 1) (Some 2) None (Some 4) (Some 5) True GST_STATE_CHANGE_SUCCESS 7 [] =
     (Some (- 1), [PrintErr ''Not all elements could be created.'' []]) \<and>
   bt2_main (Some 1) (Some 2) (Some 3) False GST_STATE_CHANGE_SUCCESS 7 [] =
     (Some (- 1),
      [BinAddMany 3 [1, 2], ElementLink [1, 2], PrintErr ''Elements could not be linked.'' [],
       ObjectUnref 3])"
  by (simp add: bt2_main_def bt3_main_def)

section \<open>A new pad without caps\<close>

text \<open>
  C4 asks that a pad whose current caps are absent is treated as non-matching, with no
  access to the absent descriptor. With the sink pad of the converter not linked and
  \<open>gst_pad_get_current_caps\<close> returning NULL, the callback reaches
  \<open>gst_caps_get_structure\<close> with the NULL caps: the only test of the caps against NULL
  is the one before \<open>gst_caps_unref\<close> at the exit label. What the claim says about links
  holds on every run that returns, by \<open>pad_added_handler_links_audio_only\<close>.
\<close>

theorem absent_caps_reach_get_structure:
  "\<not> gst_pad_is_linked ex_world (static_pad ex_world (convert ex_data3) ''sink'') \<and>
   pad_added_handler ex_data3 ex_world (ex_args 20 None) = Inl NullCaps"
  by (simp add: pad_added_handler_def gst_pad_is_linked_def ex_world_def ex_data3_def
        ex_args_def)

section \<open>The callback on a converter that is already linked\<close>

text \<open>
  C5. When the sink pad of the converter is linked, any number of invocations of the
  callback, with any pads and any caps (absent ones too), leave the pads as they are and
  attempt no link: each invocation fetches the sink pad, logs the pad it received and
  that the converter is already linked, and drops its reference to the sink pad.
\<close>

theorem already_linked_is_idempotent:
  assumes "gst_pad_is_linked w (static_pad w (convert data) ''sink'')"
  shows "pad_added_many data w as =
     Inr (w, concat (map (\<lambda>a.
              [GetStaticPad (convert data) ''sink'',
               Print ''Received new pad '%s' from '%s':'' [new_pad_name a, src_element_name a],
               Print ''We are already linked. Ignoring.'' [],
               ObjectUnref (static_pad w (convert data) ''sink'')]) as)) \<and>
     pad_links (concat (map (\<lambda>a.
              [GetStaticPad (convert data) ''sink'',
               Print ''Received new pad '%s' from '%s':'' [new_pad_name a, src_element_name a],
               Print ''We are already linked. Ignoring.'' [],
               ObjectUnref (static_pad w (convert data) ''sink'')]) as)) = []"
proof
  show "pad_added_many data w as =
     Inr (w, concat (map (\<lambda>a.
              [GetStaticPad (convert data) ''sink'',
               Print ''Received new pad '%s' from '%s':'' [new_pad_name a, src_element_name a],
               Print ''We are already linked. Ignoring.'' [],
               ObjectUnref (static_pad w (convert data) ''sink'')]) as))"
    by (induction as) (simp_all add: pad_added_handler_linked [OF assms])
  show "pad_links (concat (map (\<lambda>a.
              [GetStaticPad (convert data) ''sink'',
               Print ''Received new pad '%s' from '%s':'' [new_pad_name a, src_element_name a],
               Print ''We are already linked. Ignoring.'' [],
               ObjectUnref (static_pad w (convert data) ''sink'')]) as)) = []"
    by (induction as) simp_all
qed

text \<open>
  Three invocations on the linked world: a video pad, an audio pad, a pad without caps.
\<close>

theorem already_linked_is_idempotent_witness:
  "gst_pad_is_linked ex_world_linked (static_pad ex_world_linked (convert ex_data3) ''sink'') \<and>
   pad_added_many ex_data3 ex_world_linked
       [ex_args 30 (Some [''video/x-raw'']), ex_args 31 (Some [''audio/x-raw'']),
        ex_args 32 None] =
     Inr (ex_world_linked,
          [GetStaticPad 2 ''sink'', Print ''Received new pad '%s' from '%s':'' [''src_0'', ''source''],
           Print ''We are already linked. Ignoring.'' [], ObjectUnref 10,
           GetStaticPad 2 ''sink'', Print ''Received new pad '%s' from '%s':'' [''src_0'', ''source''],
           Print ''We are already linked. Ignoring.'' [], ObjectUnref 10,
           GetStaticPad 2 ''sink'', Print ''Received new pad '%s' from '%s':'' [''src_0'', ''source''],
           Print ''We are already linked. Ignoring.'' [], ObjectUnref 10])"
  using already_linked_is_idempotent [where w = ex_world_linked and data = ex_data3
      and as = "[ex_args 30 (Some [''video/x-raw'']), ex_args 31 (Some [''audio/x-raw'']),
        ex_args 32 None]"]
  by (simp add: gst_pad_is_linked_def ex_world_linked_def ex_data3_def ex_args_def)

section \<open>State-changed messages of other elements\<close>


text \<open>
  C9. In \<open>handle_message\<close> of bt4, a state-changed message whose source is not the
  playbin leaves every field of the session state as it was; the only effect of
  handling it is that the message is released.
\<close>

theorem foreign_state_changed_is_noop:
  assumes "msg_type msg = GST_MESSAGE_STATE_CHANGED" and "msg_src msg \<noteq> playbin data"
  shows "handle_message data msg reply = (data, [MessageUnref msg])"
  using assms by (simp add: handle_message_def)

theorem foreign_state_changed_is_noop_witness:
  "handle_message ex_data (ex_message GST_MESSAGE_STATE_CHANGED 2 GST_STATE_PLAYING) None =
     (ex_data, [MessageUnref (ex_message GST_MESSAGE_STATE_CHANGED 2 GST_STATE_PLAYING)])"
  using foreign_state_changed_is_noop
    [of "ex_message GST_MESSAGE_STATE_CHANGED 2 GST_STATE_PLAYING" ex_data None]
  by (simp add: ex_data_def ex_message_def)

end
